theory Spec2Isabelle
  imports Main
begin

section \<open>JavaScript values\<close>

text \<open>
  Request bodies, response bodies and encrypted payloads are values of the source's type
  \<^verbatim>\<open>any\<close> that survive \<^verbatim>\<open>JSON.stringify\<close>. A value that may be \<^verbatim>\<open>undefined\<close> has type
  \<open>json option\<close>, with \<open>None\<close> for \<^verbatim>\<open>undefined\<close>. Numbers are integers here: no
  function below computes with them.
\<close>

datatype json =
    JNull
  | JBool bool
  | JNum int
  | JStr string
  | JArr "json list"
  | JObj "(string \<times> json) list"

text \<open>JavaScript truthiness, as used by \<^verbatim>\<open>!x\<close>, \<^verbatim>\<open>x && y\<close> and \<^verbatim>\<open>x || y\<close>.\<close>

fun truthy :: "json \<Rightarrow> bool" where
  "truthy JNull = False"
| "truthy (JBool b) = b"
| "truthy (JNum n) = (n \<noteq> 0)"
| "truthy (JStr s) = (s \<noteq> [])"
| "truthy (JArr vs) = True"
| "truthy (JObj kvs) = True"

fun truthy_opt :: "json option \<Rightarrow> bool" where
  "truthy_opt None = False"
| "truthy_opt (Some v) = truthy v"

fun truthy_str :: "string option \<Rightarrow> bool" where
  "truthy_str None = False"
| "truthy_str (Some s) = (s \<noteq> [])"

section \<open>Errors\<close>

text \<open>
  One item of the schema validator's per-field issue list (\<^verbatim>\<open>err.errors\<close>), read by the
  translation stage as \<^verbatim>\<open>item.path\<close>, \<^verbatim>\<open>item.message\<close> and \<^verbatim>\<open>item.code\<close>.
\<close>

record issue =
  item_path :: string
  item_message :: string
  item_code :: "string option"

text \<open>One entry of a detailed error's \<^verbatim>\<open>details\<close> list.\<close>

record detail =
  target :: string
  detail_message :: string
  detail_code :: "string option"

text \<open>
  The classes of js-node-errors that the server tells apart with \<^verbatim>\<open>instanceof\<close>. All of
  them extend \<^verbatim>\<open>ApiError\<close>, which extends \<^verbatim>\<open>ExtendableError\<close>; only a
  \<^verbatim>\<open>DetailedError\<close> carries a \<^verbatim>\<open>details\<close> list.
\<close>

datatype api_class =
    ApiErrorClass
  | DetailedErrorClass "detail list"
  | UnauthorizedErrorClass
  | EndpointNotFoundErrorClass
  | MethodNotAllowedErrorClass
  | NotAcceptableErrorClass
  | UnsupportedMediaTypeErrorClass
  | OtherApiErrorClass string

text \<open>The canonical error: an instance of \<^verbatim>\<open>ApiError\<close> or of one of its subclasses.\<close>

datatype 'c canonical =
  Canonical (err_class: api_class) (err_message: string) (err_code: string)
    (err_status: nat) (isPublic: bool) (err_stack: "string option") (err_cause: "'c option")

text \<open>The error classes of express-openapi-validator (\<^verbatim>\<open>OpenApiValidator.error.*\<close>).\<close>

datatype http_class =
    BadRequest
  | Unauthorized
  | NotFound
  | MethodNotAllowed
  | NotAcceptable
  | UnsupportedMediaType
  | OtherHttpError

text \<open>
  Everything that can be thrown or passed to \<^verbatim>\<open>next(err)\<close>. \<open>HttpError k name message errors\<close>
  is a schema-validator error, \<open>ExtendableError message code\<close> an \<^verbatim>\<open>ExtendableError\<close>
  that is not an \<^verbatim>\<open>ApiError\<close>, \<open>Error message\<close> any other error object.
\<close>

datatype exn =
    Error string
  | TypeError string
  | SyntaxError string
  | HttpError http_class string string "issue list"
  | JwtUnauthorizedError string
  | ExtendableError string "string option"
  | ApiError "exn canonical"

text \<open>A \<^verbatim>\<open>try { body } catch (e) { handler }\<close> block: the handler runs only when the body throws.\<close>

definition try_catch :: "exn + 'a \<Rightarrow> (exn \<Rightarrow> exn + 'a) \<Rightarrow> exn + 'a" where
  "try_catch body handler = (case body of Inl e \<Rightarrow> handler e | Inr v \<Rightarrow> Inr v)"

text \<open>
  Reading a property \<^verbatim>\<open>v.name\<close>: a \<^verbatim>\<open>TypeError\<close> on \<^verbatim>\<open>null\<close>, the member of an object,
  \<^verbatim>\<open>undefined\<close> on any other value (the names read below are \<^verbatim>\<open>data\<close>, \<^verbatim>\<open>actualData\<close> and
  \<^verbatim>\<open>randNum\<close>, which no string, number, boolean or array has).
\<close>

fun get_prop :: "json \<Rightarrow> string \<Rightarrow> exn + json option" where
  "get_prop JNull name =
     Inl (TypeError (''Cannot read properties of null (reading '' @ [CHR 0x27] @ name @ [CHR 0x27] @ '')''))"
| "get_prop (JObj kvs) name = Inr (map_of kvs name)"
| "get_prop v name = Inr None"

section \<open>The payload codec\<close>

text \<open>
  The cipher (crypto-js) and the JSON codec of the runtime are not part of the repository;
  the codec takes them as parameters. \<open>AES_encrypt salt message key\<close> is
  \<^verbatim>\<open>CryptoJS.AES.encrypt(message, key).toString()\<close> for the random salt the library draws,
  \<open>AES_decrypt ciphertext key\<close> is \<^verbatim>\<open>CryptoJS.AES.decrypt(ciphertext, key)\<close> (a byte array,
  or an exception), \<open>Utf8_stringify\<close> is \<^verbatim>\<open>bytes.toString(CryptoJS.enc.Utf8)\<close>. The ciphertext
  argument has type \<open>json\<close>: the decoder stage passes \<^verbatim>\<open>request.body.data\<close>, of type
  \<^verbatim>\<open>any\<close>, and the annotation \<^verbatim>\<open>string\<close> of \<^verbatim>\<open>decryptData\<close> is erased at run time.
  A byte array is a list of \<open>char\<close>, each one byte.
\<close>

type_synonym bytes = "char list"

record prims =
  AES_encrypt :: "bytes \<Rightarrow> string \<Rightarrow> string \<Rightarrow> string"
  AES_decrypt :: "json \<Rightarrow> string \<Rightarrow> exn + bytes"
  Utf8_stringify :: "bytes \<Rightarrow> exn + string"
  JSON_stringify :: "json \<Rightarrow> string"
  JSON_parse :: "string \<Rightarrow> exn + json"

text \<open>\<^verbatim>\<open>src/encryptData.ts\<close>\<close>

definition encryptData :: "prims \<Rightarrow> bytes \<Rightarrow> json \<Rightarrow> string \<Rightarrow> string" where
  "encryptData p salt data encryptionKey =
     AES_encrypt p salt (JSON_stringify p data) encryptionKey"

text \<open>
  \<^verbatim>\<open>CryptoJS.AES.decrypt(encryptedData, encryptionKey).toString(CryptoJS.enc.Utf8)\<close>: the
  first two statements of \<^verbatim>\<open>decryptData\<close>, either of which may throw.
\<close>

definition decrypt_utf8 :: "prims \<Rightarrow> json \<Rightarrow> string \<Rightarrow> exn + string" where
  "decrypt_utf8 p encryptedData encryptionKey =
     (case AES_decrypt p encryptedData encryptionKey of
        Inl e \<Rightarrow> Inl e
      | Inr bytes \<Rightarrow> Utf8_stringify p bytes)"

text \<open>
  \<^verbatim>\<open>decryptData\<close> (\<^verbatim>\<open>src/decryptData.ts\<close>). The result type keeps the exception channel, so
  that "does not raise" is a statement about the function and not a choice of its type.
  The inner handler returns the decrypted text itself, a JavaScript string; the outer
  handler returns \<^verbatim>\<open>null\<close> (after \<^verbatim>\<open>console.error\<close>, which writes to the console only).
\<close>

definition decryptData :: "prims \<Rightarrow> json \<Rightarrow> string \<Rightarrow> exn + json" where
  "decryptData p encryptedData encryptionKey =
     try_catch
       (case decrypt_utf8 p encryptedData encryptionKey of
          Inl e \<Rightarrow> Inl e
        | Inr decryptedData \<Rightarrow>
            try_catch
              (case JSON_parse p decryptedData of
                 Inl e \<Rightarrow> Inl e
               | Inr parsedData \<Rightarrow> Inr parsedData)
              (\<lambda>parseError. Inr (JStr decryptedData)))
       (\<lambda>error. Inr JNull)"

section \<open>Configuration and requests\<close>

definition GLOBAL_ENV_DEV :: string where
  "GLOBAL_ENV_DEV = ''development''"

definition GLOBAL_ENV_TEST :: string where
  "GLOBAL_ENV_TEST = ''test''"

definition ENVIRONMENT_MODE_TYPE_dev :: string where
  "ENVIRONMENT_MODE_TYPE_dev = ''development''"

text \<open>
  The stages an Express application or router holds, in registration order. A stage is
  named after the call of \<^verbatim>\<open>index.ts\<close> that registers it.
\<close>

datatype api_spec = ApiSpecObject json | ApiSpecPath "string option"

datatype dyn_stage =
    SwaggerUI json
  | OpenApiValidator api_spec

datatype stage =
    Cors "json option"
  | Urlencoded
  | JsonBody "string option"
  | CookieParser
  | AccessLog
  | Helmet
  | Frameguard
  | HealthCheckRoute
  | ReadyCheckRoute
  | RootRoute
  | DecoderStage
  | DynamicRouterStage
  | ResponseBodyStage
  | RouterStage "string list"
  | NotFoundStage
  | OpenApiErrorTranslationStage
  | ErrorTranslationStage
  | ErrorHandlingStage

text \<open>
  \<^verbatim>\<open>interface Config\<close>. The caller's router is the list of its route paths, the logger
  configuration its application name; \<open>customBodyParser\<close> receives the application, that is
  its stack of stages, and may register stages of its own.
\<close>

record config =
  router :: "string list"
  logger :: string
  ignoredAccessLogPaths :: string
  openapiBaseSchema :: "string option"
  openapiSpec :: "json option"
  env :: string
  shouldCheckOpenApiBaseSchema :: "bool option"
  requestPayloadLimit :: "string option"
  corsOptions :: "json option"
  encryptionKey :: "string option"
  customBodyParser :: "(stage list \<Rightarrow> stage list) option"

text \<open>The fields of an Express request that the decoder stage reads and writes.\<close>

record request =
  body :: "json option"
  randNum :: "json option"

text \<open>
  The middleware registered by \<^verbatim>\<open>decoder()\<close>. \<open>Inl e\<close>: the middleware throws \<open>e\<close> (Express
  hands it to the error stages); \<open>Inr r\<close>: it calls \<^verbatim>\<open>next()\<close> with the request \<open>r\<close>.
  The condition \<^verbatim>\<open>request.body && request.body.data && envKey && env !== dev\<close> is evaluated
  left to right; \<^verbatim>\<open>request.body.data\<close> is read only on a truthy body.
\<close>

definition decoder_mw :: "prims \<Rightarrow> config \<Rightarrow> request \<Rightarrow> exn + request" where
  "decoder_mw p cfg request =
     (case body request of
        None \<Rightarrow> Inr request
      | Some b \<Rightarrow>
          if \<not> truthy b then Inr request
          else
            (case get_prop b ''data'' of
               Inl e \<Rightarrow> Inl e
             | Inr None \<Rightarrow> Inr request
             | Inr (Some data) \<Rightarrow>
                 (case encryptionKey cfg of
                    None \<Rightarrow> Inr request
                  | Some envKey \<Rightarrow>
                      if truthy data \<and> envKey \<noteq> [] \<and> env cfg \<noteq> ENVIRONMENT_MODE_TYPE_dev
                      then
                        (case decryptData p data envKey of
                           Inl e \<Rightarrow> Inl e
                         | Inr decryptedData \<Rightarrow>
                             (case get_prop decryptedData ''actualData'' of
                                Inl e \<Rightarrow> Inl e
                              | Inr actualData \<Rightarrow>
                                  (case get_prop decryptedData ''randNum'' of
                                     Inl e \<Rightarrow> Inl e
                                   | Inr rn \<Rightarrow>
                                       Inr (request\<lparr>body := actualData, randNum := rn\<rparr>))))
                      else Inr request)))"

section \<open>The application object\<close>

text \<open>
  The state of an \<^verbatim>\<open>App\<close> instance: the Express application (its stack of stages and the
  \<^verbatim>\<open>x-powered-by\<close> setting), the private fields \<^verbatim>\<open>readyState\<close>, \<^verbatim>\<open>config\<close> and
  \<^verbatim>\<open>dynamicRouter\<close> (\<open>None\<close> while undefined), and what the logger has been given.
\<close>

record app =
  stack :: "stage list"
  x_powered_by :: bool
  readyState :: bool
  app_config :: config
  dynamicRouter :: "dyn_stage list option"
  logged :: "string list"

text \<open>
  The constructor. \<open>Inl e\<close>: it throws \<open>e\<close> and no instance exists. The message of the
  error it throws is the whole of what the source says about it: the class is \<^verbatim>\<open>Error\<close>.
\<close>

definition ConfigurationError :: exn where
  "ConfigurationError =
     Error ''Error in app configuration either openapiBaseSchema or openapiSpec have to be provided.''"

definition constructor :: "config \<Rightarrow> exn + app" where
  "constructor appConfig =
     (let shouldCheck =
            (if shouldCheckOpenApiBaseSchema appConfig = Some False then False else True)
      in
        if shouldCheck \<and> \<not> truthy_str (openapiBaseSchema appConfig)
           \<and> \<not> truthy_opt (openapiSpec appConfig)
        then Inl ConfigurationError
        else
          let s1 = [Cors (if truthy_opt (corsOptions appConfig)
                          then corsOptions appConfig else None)];
              s2 = (case customBodyParser appConfig of
                      None \<Rightarrow>
                        s1 @ [Urlencoded, JsonBody (requestPayloadLimit appConfig), CookieParser]
                    | Some f \<Rightarrow> f s1)
          in Inr \<lparr>stack = s2, x_powered_by = True, readyState = False,
                  app_config = appConfig, dynamicRouter = None, logged = []\<rparr>)"

text \<open>\<^verbatim>\<open>this.app.use(...)\<close> and \<^verbatim>\<open>this.app.get(...)\<close> append one stage to the stack.\<close>

definition use :: "stage \<Rightarrow> app \<Rightarrow> app" where
  "use s a = a\<lparr>stack := stack a @ [s]\<rparr>"

definition initLogging :: "app \<Rightarrow> app" where
  "initLogging a = use AccessLog a"

definition initSecurity :: "app \<Rightarrow> app" where
  "initSecurity a = (use Frameguard (use Helmet a))\<lparr>x_powered_by := False\<rparr>"

definition initHealth :: "app \<Rightarrow> app" where
  "initHealth a = use RootRoute (use ReadyCheckRoute (use HealthCheckRoute a))"

definition decoder :: "app \<Rightarrow> app" where
  "decoder a = use DecoderStage a"

definition registerDynamicRouter :: "app \<Rightarrow> app" where
  "registerDynamicRouter a = use DynamicRouterStage a"

definition modifyResponseBody :: "app \<Rightarrow> app" where
  "modifyResponseBody a = use ResponseBodyStage a"

definition initRoutes :: "app \<Rightarrow> app" where
  "initRoutes a = use NotFoundStage (use (RouterStage (router (app_config a))) a)"

definition openApiErrorTranslation :: "app \<Rightarrow> app" where
  "openApiErrorTranslation a = use OpenApiErrorTranslationStage a"

definition initErrorTranslation :: "app \<Rightarrow> app" where
  "initErrorTranslation a = use ErrorTranslationStage (openApiErrorTranslation a)"

definition initErrorHandling :: "app \<Rightarrow> app" where
  "initErrorHandling a = use ErrorHandlingStage a"

text \<open>
  The methods that may throw return the exception, if any, beside the state they leave
  behind: a throw does not undo the assignments made before it. \<^verbatim>\<open>YAML.load\<close> reads a file
  and is a parameter; it is given what the source passes, \<^verbatim>\<open>this.config.openapiBaseSchema\<close>.
\<close>

type_synonym yaml_load = "string option \<Rightarrow> exn + json"

definition router_missing :: exn where
  "router_missing = Error ''Dynamic router is used before it's created''"

text \<open>\<open>a || b\<close> on an optional value: the left operand when it is truthy.\<close>

fun truthy_value :: "json option \<Rightarrow> json option" where
  "truthy_value None = None"
| "truthy_value (Some v) = (if truthy v then Some v else None)"

definition initSwaggerUI :: "yaml_load \<Rightarrow> json option \<Rightarrow> app \<Rightarrow> exn option \<times> app" where
  "initSwaggerUI YAML_load openApiSpec a =
     (case dynamicRouter a of
        None \<Rightarrow> (Some router_missing, a)
      | Some r \<Rightarrow>
          (case truthy_value openApiSpec of
             Some doc \<Rightarrow> (None, a\<lparr>dynamicRouter := Some (r @ [SwaggerUI doc])\<rparr>)
           | None \<Rightarrow>
               (case YAML_load (openapiBaseSchema (app_config a)) of
                  Inl e \<Rightarrow> (Some e, a)
                | Inr doc \<Rightarrow> (None, a\<lparr>dynamicRouter := Some (r @ [SwaggerUI doc])\<rparr>))))"

definition initOpenApiValidation :: "json option \<Rightarrow> app \<Rightarrow> exn option \<times> app" where
  "initOpenApiValidation openapiSpec' a =
     (case dynamicRouter a of
        None \<Rightarrow> (Some router_missing, a)
      | Some r \<Rightarrow>
          (None, a\<lparr>dynamicRouter := Some (r @ [OpenApiValidator
             (case truthy_value openapiSpec' of
                Some doc \<Rightarrow> ApiSpecObject doc
              | None \<Rightarrow> ApiSpecPath (openapiBaseSchema (app_config a)))])\<rparr>))"

definition reloadDynamicRouter :: "yaml_load \<Rightarrow> json option \<Rightarrow> app \<Rightarrow> exn option \<times> app" where
  "reloadDynamicRouter YAML_load openApiSpec a =
     (let a1 = a\<lparr>logged := logged a @ [''Reloading dynamic routes...''],
                 dynamicRouter := Some []\<rparr>
      in
        if truthy_opt openApiSpec \<or> truthy_str (openapiBaseSchema (app_config a1))
        then
          (case initSwaggerUI YAML_load openApiSpec a1 of
             (Some e, a2) \<Rightarrow> (Some e, a2)
           | (None, a2) \<Rightarrow> initOpenApiValidation openApiSpec a2)
        else (None, a1))"

definition init :: "yaml_load \<Rightarrow> app \<Rightarrow> exn option \<times> app" where
  "init YAML_load a =
     (let a4 = decoder (initHealth (initSecurity (initLogging a)))
      in
        case reloadDynamicRouter YAML_load (openapiSpec (app_config a4)) a4 of
          (Some e, a5) \<Rightarrow> (Some e, a5)
        | (None, a5) \<Rightarrow>
            (let a6 = registerDynamicRouter a5
             in
               case (if truthy_opt (openapiSpec (app_config a6))
                        \<or> truthy_str (openapiBaseSchema (app_config a6))
                     then initOpenApiValidation (openapiSpec (app_config a6)) a6
                     else (None, a6)) of
                 (Some e, a7) \<Rightarrow> (Some e, a7)
               | (None, a7) \<Rightarrow>
                   (None,
                    (initErrorHandling (initErrorTranslation (initRoutes (modifyResponseBody a7))))
                      \<lparr>readyState := True\<rparr>)))"

definition shutdown :: "app \<Rightarrow> app" where
  "shutdown a = a\<lparr>readyState := False\<rparr>"

text \<open>
  The public operations of an instance, and a caller that invokes a sequence of them on
  it, going on after an exception: the instance keeps the state the throwing call left.
\<close>

datatype operation = Init | Shutdown | ReloadDynamicRouter "json option"

fun exec :: "yaml_load \<Rightarrow> operation \<Rightarrow> app \<Rightarrow> exn option \<times> app" where
  "exec YAML_load Init a = init YAML_load a"
| "exec YAML_load Shutdown a = (None, shutdown a)"
| "exec YAML_load (ReloadDynamicRouter openApiSpec) a = reloadDynamicRouter YAML_load openApiSpec a"

fun run :: "yaml_load \<Rightarrow> operation list \<Rightarrow> app \<Rightarrow> app" where
  "run YAML_load [] a = a"
| "run YAML_load (x # xs) a = run YAML_load xs (snd (exec YAML_load x a))"

text \<open>The stages one call of \<^verbatim>\<open>init()\<close> registers on the application, in order.\<close>

definition init_stages :: "config \<Rightarrow> stage list" where
  "init_stages cfg =
     [AccessLog, Helmet, Frameguard, HealthCheckRoute, ReadyCheckRoute, RootRoute,
      DecoderStage, DynamicRouterStage, ResponseBodyStage, RouterStage (router cfg),
      NotFoundStage, OpenApiErrorTranslationStage, ErrorTranslationStage, ErrorHandlingStage]"

section \<open>Error translation and rendering\<close>

text \<open>\<^verbatim>\<open>err.message\<close>\<close>

fun message_of :: "exn \<Rightarrow> string" where
  "message_of (Error m) = m"
| "message_of (TypeError m) = m"
| "message_of (SyntaxError m) = m"
| "message_of (HttpError k name m errors) = m"
| "message_of (JwtUnauthorizedError m) = m"
| "message_of (ExtendableError m c) = m"
| "message_of (ApiError c) = err_message c"

text \<open>The options object given to the constructors of \<^verbatim>\<open>ApiError\<close> and \<^verbatim>\<open>DetailedError\<close>.\<close>

record api_options =
  opt_status :: "nat option"
  opt_isPublic :: "bool option"
  opt_code :: "string option"

text \<open>
  Modelled from the spec: the constructors \<^verbatim>\<open>new ApiError(message, options, cause)\<close> and
  \<^verbatim>\<open>new DetailedError(message, details, options, cause)\<close> of the package js-node-errors, which
  is not among the sources. An option left out takes its default: status 500 and code
  \<^verbatim>\<open>error.unexpected\<close> (data model of the spec), not public (the tests of the default
  parameters). The first argument is the stack trace the runtime records at construction.
\<close>

definition new_ApiError ::
  "string \<Rightarrow> string \<Rightarrow> api_options \<Rightarrow> exn option \<Rightarrow> exn canonical" where
  "new_ApiError trace message options cause0 =
     Canonical ApiErrorClass message
       (case opt_code options of None \<Rightarrow> ''error.unexpected'' | Some c \<Rightarrow> c)
       (case opt_status options of None \<Rightarrow> 500 | Some n \<Rightarrow> n)
       (case opt_isPublic options of None \<Rightarrow> False | Some b \<Rightarrow> b)
       (Some trace) cause0"

definition new_DetailedError ::
  "string \<Rightarrow> string \<Rightarrow> detail list \<Rightarrow> api_options \<Rightarrow> exn option \<Rightarrow> exn canonical" where
  "new_DetailedError trace message details options cause0 =
     Canonical (DetailedErrorClass details) message
       (case opt_code options of None \<Rightarrow> ''error.unexpected'' | Some c \<Rightarrow> c)
       (case opt_status options of None \<Rightarrow> 500 | Some n \<Rightarrow> n)
       (case opt_isPublic options of None \<Rightarrow> False | Some b \<Rightarrow> b)
       (Some trace) cause0"

text \<open>
  The other constructors of js-node-errors that the translation calls, each with a message
  and a cause, are parameters.
\<close>

record errlib =
  new_UnauthorizedError :: "string \<Rightarrow> exn \<Rightarrow> exn canonical"
  new_EndpointNotFoundError :: "string \<Rightarrow> exn \<Rightarrow> exn canonical"
  new_MethodNotAllowedError :: "string \<Rightarrow> exn \<Rightarrow> exn canonical"
  new_NotAcceptableError :: "string \<Rightarrow> exn \<Rightarrow> exn canonical"
  new_UnsupportedMediaTypeError :: "string \<Rightarrow> exn \<Rightarrow> exn canonical"

text \<open>The entry of \<^verbatim>\<open>details\<close> made from one issue of the validator.\<close>

definition detail_of :: "issue \<Rightarrow> detail" where
  "detail_of item =
     \<lparr>target = item_path item, detail_message = item_message item, detail_code = item_code item\<rparr>"

text \<open>
  The middleware registered by \<^verbatim>\<open>openApiErrorTranslation()\<close>: the result is the error it
  passes to \<^verbatim>\<open>next\<close>. The equations are the \<^verbatim>\<open>instanceof\<close> tests in the source's order.
\<close>

fun openApiErrorTranslation_mw :: "errlib \<Rightarrow> string \<Rightarrow> exn \<Rightarrow> exn" where
  "openApiErrorTranslation_mw lib trace (HttpError BadRequest name m errors) =
     ApiError (new_DetailedError trace name (map detail_of errors)
       \<lparr>opt_status = Some 400, opt_isPublic = Some True, opt_code = Some ''error.request.invalid''\<rparr>
       (Some (HttpError BadRequest name m errors)))"
| "openApiErrorTranslation_mw lib trace (HttpError Unauthorized name m errors) =
     ApiError (new_UnauthorizedError lib m (HttpError Unauthorized name m errors))"
| "openApiErrorTranslation_mw lib trace (JwtUnauthorizedError m) =
     ApiError (new_UnauthorizedError lib m (JwtUnauthorizedError m))"
| "openApiErrorTranslation_mw lib trace (HttpError NotFound name m errors) =
     ApiError (new_EndpointNotFoundError lib m (HttpError NotFound name m errors))"
| "openApiErrorTranslation_mw lib trace (HttpError MethodNotAllowed name m errors) =
     ApiError (new_MethodNotAllowedError lib m (HttpError MethodNotAllowed name m errors))"
| "openApiErrorTranslation_mw lib trace (HttpError NotAcceptable name m errors) =
     ApiError (new_NotAcceptableError lib m (HttpError NotAcceptable name m errors))"
| "openApiErrorTranslation_mw lib trace (HttpError UnsupportedMediaType name m errors) =
     ApiError (new_UnsupportedMediaTypeError lib m (HttpError UnsupportedMediaType name m errors))"
| "openApiErrorTranslation_mw lib trace err = err"

text \<open>
  The second middleware registered by \<^verbatim>\<open>initErrorTranslation()\<close>: the errors it gives to
  the logger, and the error it passes to \<^verbatim>\<open>next\<close>.
\<close>

fun to_ApiError :: "string \<Rightarrow> exn \<Rightarrow> exn" where
  "to_ApiError trace (SyntaxError m) =
     ApiError (new_ApiError trace m
       \<lparr>opt_status = Some 400, opt_isPublic = Some True, opt_code = Some ''error.request.invalid''\<rparr>
       (Some (SyntaxError m)))"
| "to_ApiError trace (ExtendableError m c) =
     ApiError (new_ApiError trace m
       \<lparr>opt_status = None, opt_isPublic = None, opt_code = c\<rparr> (Some (ExtendableError m c)))"
| "to_ApiError trace (ApiError c) = ApiError c"
| "to_ApiError trace err =
     ApiError (new_ApiError trace (message_of err)
       \<lparr>opt_status = None, opt_isPublic = None, opt_code = None\<rparr> (Some err))"

definition initErrorTranslation_mw :: "config \<Rightarrow> string \<Rightarrow> exn \<Rightarrow> exn list \<times> exn" where
  "initErrorTranslation_mw cfg trace err =
     ((if env cfg \<noteq> GLOBAL_ENV_TEST then [err] else []), to_ApiError trace err)"

text \<open>The two translation stages, in the order \<^verbatim>\<open>initErrorTranslation()\<close> registers them.\<close>

definition translation_chain :: "errlib \<Rightarrow> config \<Rightarrow> string \<Rightarrow> exn \<Rightarrow> exn list \<times> exn" where
  "translation_chain lib cfg trace err =
     initErrorTranslation_mw cfg trace (openApiErrorTranslation_mw lib trace err)"

text \<open>
  The response object: whether a response has been started, the status and the body sent.
  \<^verbatim>\<open>res.status(n).json(obj)\<close> sends \<^verbatim>\<open>JSON.stringify(obj)\<close>, which leaves out every property
  whose value is \<^verbatim>\<open>undefined\<close>; \<open>wire\<close> is the object the client reads back.
\<close>

record response =
  headersSent :: bool
  statusCode :: nat
  sent :: "json option"

definition wire :: "(string \<times> json option) list \<Rightarrow> json" where
  "wire obj = JObj (List.map_filter (\<lambda>kv. map_option (Pair (fst kv)) (snd kv)) obj)"

definition status_json :: "nat \<Rightarrow> (string \<times> json option) list \<Rightarrow> response \<Rightarrow> response" where
  "status_json n obj res = res\<lparr>headersSent := True, statusCode := n, sent := Some (wire obj)\<rparr>"

definition detail_json :: "detail \<Rightarrow> json" where
  "detail_json d =
     wire [(''target'', Some (JStr (target d))),
           (''message'', Some (JStr (detail_message d))),
           (''code'', map_option JStr (detail_code d))]"

text \<open>
  The middleware registered by \<^verbatim>\<open>initErrorHandling()\<close>: the response it leaves, and the
  error it passes to \<^verbatim>\<open>next\<close>, if it does.
\<close>

definition initErrorHandling_mw ::
  "config \<Rightarrow> exn canonical \<Rightarrow> response \<Rightarrow> response \<times> exn option" where
  "initErrorHandling_mw cfg error res =
     (if headersSent res then (res, Some (ApiError error))
      else
        let errorResponse =
              [(''message'', Some (JStr (if isPublic error then err_message error
                                          else ''An unexpected error has occurred''))),
               (''code'', Some (JStr (err_code error))),
               (''stack'', if env cfg = GLOBAL_ENV_DEV then map_option JStr (err_stack error)
                           else None)]
        in
          case err_class error of
            DetailedErrorClass details \<Rightarrow>
              (status_json (err_status error)
                 (errorResponse @ [(''details'', Some (JArr (map detail_json details)))]) res,
               None)
          | _ \<Rightarrow> (status_json (err_status error) errorResponse res, None))"

text \<open>A member of the body a response carries; \<open>None\<close> when the body has no such member.\<close>

definition body_field :: "response \<Rightarrow> string \<Rightarrow> json option" where
  "body_field res name =
     (case sent res of Some (JObj kvs) \<Rightarrow> map_of kvs name | _ \<Rightarrow> None)"

section \<open>A reference instance of the external primitives\<close>

text \<open>
  To run the model on concrete inputs the parameters need values. The definitions of this
  section are such values; no theorem about the server depends on them, except those that
  evaluate it at a concrete input.
\<close>

text \<open>
  A JSON printer and parser for the values of type \<open>json\<close>. The printer writes no white
  space; the parser reads what the printer writes, with fuel for the nesting.
\<close>

fun digits :: "nat \<Rightarrow> string" where
  "digits n = (if n < 10 then [char_of (48 + n)] else digits (n div 10) @ [char_of (48 + n mod 10)])"

fun escape :: "string \<Rightarrow> string" where
  "escape [] = []"
| "escape (c # cs) =
     (if c = CHR 0x22 \<or> c = CHR 0x5C then CHR 0x5C # c # escape cs else c # escape cs)"

definition quote :: "string \<Rightarrow> string" where
  "quote s = [CHR 0x22] @ escape s @ [CHR 0x22]"

fun commas :: "string list \<Rightarrow> string" where
  "commas [] = []"
| "commas [x] = x"
| "commas (x # y # ys) = x @ '','' @ commas (y # ys)"

fun stringify :: "json \<Rightarrow> string" where
  "stringify JNull = ''null''"
| "stringify (JBool b) = (if b then ''true'' else ''false'')"
| "stringify (JNum i) = (if i < 0 then ''-'' @ digits (nat (- i)) else digits (nat i))"
| "stringify (JStr s) = quote s"
| "stringify (JArr vs) = ''['' @ commas (map stringify vs) @ '']''"
| "stringify (JObj kvs) =
     ''{'' @ commas (map (\<lambda>kv. quote (fst kv) @ '':'' @ stringify (snd kv)) kvs) @ ''}''"

definition is_digit :: "char \<Rightarrow> bool" where
  "is_digit c = (48 \<le> (of_char c :: nat) \<and> (of_char c :: nat) \<le> 57)"

fun number_of :: "string \<Rightarrow> nat \<Rightarrow> nat" where
  "number_of [] acc = acc"
| "number_of (c # cs) acc = number_of cs (10 * acc + (of_char c - 48))"

fun read_string :: "string \<Rightarrow> (string \<times> string) option" where
  "read_string [] = None"
| "read_string (c # cs) =
     (if c = CHR 0x22 then Some ([], cs)
      else if c = CHR 0x5C then
        (case cs of
           [] \<Rightarrow> None
         | d # ds \<Rightarrow> map_option (\<lambda>sr. (d # fst sr, snd sr)) (read_string ds))
      else map_option (\<lambda>sr. (c # fst sr, snd sr)) (read_string cs))"

fun parse_value :: "nat \<Rightarrow> string \<Rightarrow> (json \<times> string) option"
  and parse_elements :: "nat \<Rightarrow> string \<Rightarrow> (json list \<times> string) option"
  and parse_members :: "nat \<Rightarrow> string \<Rightarrow> ((string \<times> json) list \<times> string) option"
where
  "parse_value 0 s = None"
| "parse_value (Suc n) s =
     (if take 4 s = ''null'' then Some (JNull, drop 4 s)
      else if take 4 s = ''true'' then Some (JBool True, drop 4 s)
      else if take 5 s = ''false'' then Some (JBool False, drop 5 s)
      else
        (case s of
           [] \<Rightarrow> None
         | c # r \<Rightarrow>
             if c = CHR 0x22 then map_option (\<lambda>tr. (JStr (fst tr), snd tr)) (read_string r)
             else if c = CHR ''['' then
               (if take 1 r = '']'' then Some (JArr [], drop 1 r)
                else map_option (\<lambda>vr. (JArr (fst vr), snd vr)) (parse_elements n r))
             else if c = CHR ''{'' then
               (if take 1 r = ''}'' then Some (JObj [], drop 1 r)
                else map_option (\<lambda>mr. (JObj (fst mr), snd mr)) (parse_members n r))
             else if c = CHR ''-'' \<and> takeWhile is_digit r \<noteq> [] then
               Some (JNum (- int (number_of (takeWhile is_digit r) 0)), dropWhile is_digit r)
             else if is_digit c then
               Some (JNum (int (number_of (takeWhile is_digit s) 0)), dropWhile is_digit s)
             else None))"
| "parse_elements 0 s = None"
| "parse_elements (Suc n) s =
     (case parse_value n s of
        None \<Rightarrow> None
      | Some (v, r) \<Rightarrow>
          (case r of
             [] \<Rightarrow> None
           | c # r' \<Rightarrow>
               if c = CHR '']'' then Some ([v], r')
               else if c = CHR '','' then
                 map_option (\<lambda>vr. (v # fst vr, snd vr)) (parse_elements n r')
               else None))"
| "parse_members 0 s = None"
| "parse_members (Suc n) s =
     (case s of
        [] \<Rightarrow> None
      | q # s' \<Rightarrow>
          if q \<noteq> CHR 0x22 then None
          else
            (case read_string s' of
               None \<Rightarrow> None
             | Some (k, r) \<Rightarrow>
                 (case r of
                    [] \<Rightarrow> None
                  | c # r1 \<Rightarrow>
                      if c \<noteq> CHR '':'' then None
                      else
                        (case parse_value n r1 of
                           None \<Rightarrow> None
                         | Some (v, r2) \<Rightarrow>
                             (case r2 of
                                [] \<Rightarrow> None
                              | d # r3 \<Rightarrow>
                                  if d = CHR ''}'' then Some ([(k, v)], r3)
                                  else if d = CHR '','' then
                                    map_option (\<lambda>mr. ((k, v) # fst mr, snd mr))
                                      (parse_members n r3)
                                  else None)))))"

definition parse :: "string \<Rightarrow> exn + json" where
  "parse s =
     (case parse_value (Suc (length s)) s of
        Some (v, []) \<Rightarrow> Inr v
      | _ \<Rightarrow> Inl (SyntaxError ''Unexpected token in JSON''))"

text \<open>
  A keyed cipher with no integrity check: every byte of the message is XORed with one byte
  derived from the salt and the key, and the salt byte is sent in front. It decrypts under
  any key; under a wrong key the bytes it returns are not the message. \<open>utf8\<close> accepts a
  byte array when every byte is below 128.
\<close>

fun xor_byte :: "char \<Rightarrow> char \<Rightarrow> char" where
  "xor_byte (Char a0 a1 a2 a3 a4 a5 a6 a7) (Char b0 b1 b2 b3 b4 b5 b6 b7) =
     Char (a0 \<noteq> b0) (a1 \<noteq> b1) (a2 \<noteq> b2) (a3 \<noteq> b3) (a4 \<noteq> b4) (a5 \<noteq> b5) (a6 \<noteq> b6) (a7 \<noteq> b7)"

fun rotl :: "char \<Rightarrow> char" where
  "rotl (Char b0 b1 b2 b3 b4 b5 b6 b7) = Char b7 b0 b1 b2 b3 b4 b5 b6"

fun key_byte :: "string \<Rightarrow> char" where
  "key_byte [] = CHR 0x00"
| "key_byte (c # cs) = xor_byte c (rotl (key_byte cs))"

definition xor_encrypt :: "bytes \<Rightarrow> string \<Rightarrow> string \<Rightarrow> string" where
  "xor_encrypt salt m k =
     key_byte salt # map (xor_byte (xor_byte (key_byte salt) (key_byte k))) m"

fun xor_decrypt :: "json \<Rightarrow> string \<Rightarrow> exn + bytes" where
  "xor_decrypt (JStr (h # cs)) k = Inr (map (xor_byte (xor_byte h (key_byte k))) cs)"
| "xor_decrypt v k = Inl (Error ''Malformed ciphertext'')"

definition utf8 :: "bytes \<Rightarrow> exn + string" where
  "utf8 bs =
     (if list_all (\<lambda>b. \<not> digit7 b) bs then Inr bs
      else Inl (Error ''Malformed UTF-8 data''))"

definition reference_prims :: prims where
  "reference_prims =
     \<lparr>AES_encrypt = xor_encrypt, AES_decrypt = xor_decrypt, Utf8_stringify = utf8,
      JSON_stringify = stringify, JSON_parse = parse\<rparr>"


text \<open>A loader that finds one schema document, and the inputs the evaluations use.\<close>

definition reference_yaml :: yaml_load where
  "reference_yaml file =
     (if file = Some ''api.schema.yml'' then Inr (JObj [(''openapi'', JStr ''3.0.0'')])
      else Inl (Error ''ENOENT: no such file or directory''))"


definition reference_errlib :: errlib where
  "reference_errlib =
     \<lparr>new_UnauthorizedError =
        (\<lambda>m c. Canonical UnauthorizedErrorClass m ''error.unauthorized'' 401 True None (Some c)),
      new_EndpointNotFoundError =
        (\<lambda>m c. Canonical EndpointNotFoundErrorClass m ''error.endpoint.not-found'' 404 True None (Some c)),
      new_MethodNotAllowedError =
        (\<lambda>m c. Canonical MethodNotAllowedErrorClass m ''error.method.not-allowed'' 405 True None (Some c)),
      new_NotAcceptableError =
        (\<lambda>m c. Canonical NotAcceptableErrorClass m ''error.not-acceptable'' 406 True None (Some c)),
      new_UnsupportedMediaTypeError =
        (\<lambda>m c. Canonical UnsupportedMediaTypeErrorClass m ''error.unsupported-media-type'' 415 True None (Some c))\<rparr>"

definition example_payload :: json where
  "example_payload = JObj [(''actualData'', JArr [JStr ''a'', JNull]), (''randNum'', JNum 42)]"

definition example_config :: config where
  "example_config =
     \<lparr>router = [''/test''], logger = ''App'', ignoredAccessLogPaths = [],
      openapiBaseSchema = Some ''api.schema.yml'', openapiSpec = None, env = ''production'',
      shouldCheckOpenApiBaseSchema = None, requestPayloadLimit = None, corsOptions = None,
      encryptionKey = Some ''zz'', customBodyParser = None\<rparr>"

definition example_app :: app where
  "example_app =
     \<lparr>stack = [Cors None, Urlencoded, JsonBody None, CookieParser], x_powered_by = True,
      readyState = False, app_config = example_config, dynamicRouter = None, logged = []\<rparr>"

definition example_response :: response where
  "example_response = \<lparr>headersSent = False, statusCode = 200, sent = None\<rparr>"

section \<open>Properties\<close>

subsection \<open>The payload codec and the decoder stage\<close>

lemma try_catch_Inr [simp]: "try_catch (Inr v) h = Inr v"
  by (simp add: try_catch_def)

lemma try_catch_Inl [simp]: "try_catch (Inl e) h = h e"
  by (simp add: try_catch_def)

lemma decryptData_cases:
  "decryptData p c k =
     (case decrypt_utf8 p c k of
        Inl e \<Rightarrow> Inr JNull
      | Inr t \<Rightarrow> (case JSON_parse p t of Inl e \<Rightarrow> Inr (JStr t) | Inr v \<Rightarrow> Inr v))"
  by (simp add: decryptData_def split: sum.splits)

text \<open>
  C1. Decrypting with key \<open>K\<close> what \<open>encryptData\<close> made of a payload \<open>P\<close> under the same
  key gives back \<open>P\<close>. The hypotheses are the laws of the three external primitives at
  this input, and speak of nothing else: the cipher returns, under the key it encrypted
  with, the bytes of the text it was given; those bytes are the UTF-8 form of that text;
  and the JSON parser reads back what the JSON printer wrote.
\<close>
theorem decrypt_encrypt_roundtrip:
  assumes "AES_decrypt p (JStr (AES_encrypt p salt (JSON_stringify p P) K)) K = Inr bs"
    and "Utf8_stringify p bs = Inr (JSON_stringify p P)"
    and "JSON_parse p (JSON_stringify p P) = Inr P"
  shows "decryptData p (JStr (encryptData p salt P K)) K = Inr P"
  using assms by (simp add: decryptData_def decrypt_utf8_def encryptData_def)

lemma reference_cipher_inverse:
  "AES_decrypt reference_prims
     (JStr (AES_encrypt reference_prims ''s'' (JSON_stringify reference_prims example_payload) ''k1'')) ''k1''
   = Inr (JSON_stringify reference_prims example_payload)"
  by code_simp

lemma reference_utf8_text:
  "Utf8_stringify reference_prims (JSON_stringify reference_prims example_payload)
   = Inr (JSON_stringify reference_prims example_payload)"
  by code_simp


lemma reference_roundtrip_json:
  "JSON_parse reference_prims (JSON_stringify reference_prims example_payload) = Inr example_payload"
  by code_simp

text \<open>C1 at the reference primitives, payload \<^verbatim>\<open>{"actualData":["a",null],"randNum":42}\<close>.\<close>
theorem decrypt_encrypt_roundtrip_witness:
  "decryptData reference_prims (JStr (encryptData reference_prims ''s'' example_payload ''k1'')) ''k1''
   = Inr example_payload"
  using decrypt_encrypt_roundtrip
    [OF reference_cipher_inverse reference_utf8_text reference_roundtrip_json] .


lemma wrong_key_throws:
  "decrypt_utf8 reference_prims (JStr (encryptData reference_prims ''s'' example_payload ''k1'')) ''zz''
   = Inl (Error ''Malformed UTF-8 data'')"
  by code_simp





text \<open>
  C10. With an encryption key configured and the environment not development, a request
  whose body has a truthy member \<^verbatim>\<open>data\<close> for which \<open>decryptData\<close> returns \<^verbatim>\<open>null\<close> makes the
  decoder stage throw a \<^verbatim>\<open>TypeError\<close>, reading \<^verbatim>\<open>actualData\<close> of \<^verbatim>\<open>null\<close>; it does not
  pass the request on unchanged.
\<close>
theorem decoder_raises_on_null:
  assumes "body request = Some b" and "truthy b"
    and "get_prop b ''data'' = Inr (Some d)" and "truthy d"
    and "encryptionKey cfg = Some envKey" and "envKey \<noteq> []"
    and "env cfg \<noteq> ENVIRONMENT_MODE_TYPE_dev"
    and "decryptData p d envKey = Inr JNull"
  shows "decoder_mw p cfg request
           = Inl (TypeError ''Cannot read properties of null (reading 'actualData')'')
         \<and> decoder_mw p cfg request \<noteq> Inr request"
  using assms by (simp add: decoder_mw_def)

lemma wrong_key_null:
  "decryptData reference_prims (JStr (encryptData reference_prims ''s'' example_payload ''k1'')) ''zz''
   = Inr JNull"
  using wrong_key_throws by (simp add: decryptData_cases)

text \<open>C10 at a request whose \<^verbatim>\<open>data\<close> was encrypted under another key than the configured one.\<close>
theorem decoder_raises_on_null_witness:
  "decoder_mw reference_prims example_config
     \<lparr>body = Some (JObj [(''data'',
               JStr (encryptData reference_prims ''s'' example_payload ''k1''))]),
      randNum = None\<rparr>
   = Inl (TypeError ''Cannot read properties of null (reading 'actualData')'')"
proof -
  let ?d = "JStr (encryptData reference_prims ''s'' example_payload ''k1'')"
  let ?r = "\<lparr>body = Some (JObj [(''data'', ?d)]), randNum = None\<rparr>"
  have 1: "body ?r = Some (JObj [(''data'', ?d)])" by simp
  have 2: "truthy (JObj [(''data'', ?d)])" by simp
  have 3: "get_prop (JObj [(''data'', ?d)]) ''data'' = Inr (Some ?d)" by simp
  have 4: "truthy ?d" by (simp add: encryptData_def reference_prims_def xor_encrypt_def)
  have 5: "encryptionKey example_config = Some ''zz''" by (simp add: example_config_def)
  have 6: "''zz'' \<noteq> []" by simp
  have 7: "env example_config \<noteq> ENVIRONMENT_MODE_TYPE_dev"
    by (simp add: example_config_def ENVIRONMENT_MODE_TYPE_dev_def)
  show ?thesis
    using decoder_raises_on_null [OF 1 2 3 4 5 6 7 wrong_key_null] by simp
qed

subsection \<open>The application object: what each method leaves unchanged\<close>

lemma use_simps [simp]:
  "stack (use s a) = stack a @ [s]"
  "readyState (use s a) = readyState a"
  "app_config (use s a) = app_config a"
  "dynamicRouter (use s a) = dynamicRouter a"
  "logged (use s a) = logged a"
  by (simp_all add: use_def)

lemma initSwaggerUI_frame:
  "initSwaggerUI y sp a = (r, a') \<Longrightarrow>
     stack a' = stack a \<and> readyState a' = readyState a \<and> app_config a' = app_config a"
  by (auto simp: initSwaggerUI_def split: option.splits sum.splits)

lemma initOpenApiValidation_frame:
  "initOpenApiValidation sp a = (r, a') \<Longrightarrow>
     stack a' = stack a \<and> readyState a' = readyState a \<and> app_config a' = app_config a"
  by (auto simp: initOpenApiValidation_def split: option.splits)

lemma reloadDynamicRouter_frame:
  assumes "reloadDynamicRouter y sp a = (r, a')"
  shows "stack a' = stack a \<and> readyState a' = readyState a \<and> app_config a' = app_config a"
proof (cases "truthy_opt sp \<or> truthy_str (openapiBaseSchema (app_config a))")
  case False
  with assms show ?thesis by (auto simp: reloadDynamicRouter_def Let_def)
next
  case True
  let ?a1 = "a\<lparr>logged := logged a @ [''Reloading dynamic routes...''], dynamicRouter := Some []\<rparr>"
  obtain r2 a2 where s: "initSwaggerUI y sp ?a1 = (r2, a2)" by (cases "initSwaggerUI y sp ?a1")
  note f2 = initSwaggerUI_frame [OF s]
  show ?thesis
  proof (cases r2)
    case (Some e)
    with assms True s have "a' = a2" by (auto simp: reloadDynamicRouter_def Let_def)
    with f2 show ?thesis by simp
  next
    case None
    with assms True s have "initOpenApiValidation sp a2 = (r, a')"
      by (auto simp: reloadDynamicRouter_def Let_def)
    from initOpenApiValidation_frame [OF this] f2 show ?thesis by simp
  qed
qed

lemma reloadDynamicRouter_ready: "readyState (snd (reloadDynamicRouter y sp a)) = readyState a"
  using reloadDynamicRouter_frame [of y sp a] by (cases "reloadDynamicRouter y sp a") simp





text \<open>What one call of \<open>init\<close> does, by the way it ends.\<close>

lemma init_frame:
  assumes "init y a = (r, a')"
  shows "app_config a' = app_config a"
    and "r = None \<Longrightarrow> readyState a' \<and> stack a' = stack a @ init_stages (app_config a)"
    and "r \<noteq> None \<Longrightarrow> readyState a' = readyState a"
proof -
  let ?a4 = "decoder (initHealth (initSecurity (initLogging a)))"
  have a4: "stack ?a4 = stack a @ [AccessLog, Helmet, Frameguard, HealthCheckRoute,
              ReadyCheckRoute, RootRoute, DecoderStage]"
      "readyState ?a4 = readyState a" "app_config ?a4 = app_config a"
    by (simp_all add: decoder_def initHealth_def initSecurity_def initLogging_def)
  obtain r5 a5 where s5: "reloadDynamicRouter y (openapiSpec (app_config ?a4)) ?a4 = (r5, a5)"
    by (cases "reloadDynamicRouter y (openapiSpec (app_config ?a4)) ?a4")
  note f5 = reloadDynamicRouter_frame [OF s5]
  let ?a6 = "registerDynamicRouter a5"
  let ?v = "if truthy_opt (openapiSpec (app_config ?a6))
                \<or> truthy_str (openapiBaseSchema (app_config ?a6))
            then initOpenApiValidation (openapiSpec (app_config ?a6)) ?a6 else (None, ?a6)"
  obtain r7 a7 where s7: "?v = (r7, a7)" by (cases ?v)
  have f7: "stack a7 = stack ?a6 \<and> readyState a7 = readyState ?a6 \<and> app_config a7 = app_config ?a6"
    using s7 initOpenApiValidation_frame [of "openapiSpec (app_config ?a6)" ?a6 r7 a7]
    by (auto split: if_splits)
  have a6: "stack ?a6 = stack a5 @ [DynamicRouterStage]" "readyState ?a6 = readyState a5"
      "app_config ?a6 = app_config a5"
    by (simp_all add: registerDynamicRouter_def)
  let ?fin = "(initErrorHandling (initErrorTranslation (initRoutes (modifyResponseBody a7))))
                \<lparr>readyState := True\<rparr>"
  have "init y a = (case r5 of Some e \<Rightarrow> (Some e, a5)
                      | None \<Rightarrow> (case r7 of Some e \<Rightarrow> (Some e, a7) | None \<Rightarrow> (None, ?fin)))"
    using s5 s7 unfolding init_def Let_def by (cases r5; cases r7) simp_all
  with assms
  have res: "(r, a') = (case r5 of Some e \<Rightarrow> (Some e, a5)
                        | None \<Rightarrow> (case r7 of Some e \<Rightarrow> (Some e, a7) | None \<Rightarrow> (None, ?fin)))"
    by simp
  have fin: "stack ?fin = stack a7 @ [ResponseBodyStage, RouterStage (router (app_config a7)),
               NotFoundStage, OpenApiErrorTranslationStage, ErrorTranslationStage, ErrorHandlingStage]"
      "app_config ?fin = app_config a7"
    by (simp_all add: initErrorHandling_def initErrorTranslation_def openApiErrorTranslation_def
        initRoutes_def modifyResponseBody_def)
  show "app_config a' = app_config a"
    using res f5 f7 a4 a6 fin by (auto split: option.splits)
  show "readyState a' \<and> stack a' = stack a @ init_stages (app_config a)" if "r = None"
    using that res f5 f7 a4 a6 fin by (auto simp: init_stages_def split: option.splits)
  show "readyState a' = readyState a" if "r \<noteq> None"
    using that res f5 f7 a4 a6 by (auto split: option.splits)
qed



subsection \<open>Readiness and repeated initialisation\<close>

lemma run_no_init_ready:
  "Init \<notin> set ops \<Longrightarrow> \<not> readyState a \<Longrightarrow> \<not> readyState (run y ops a)"
proof (induction ops arbitrary: a)
  case Nil
  then show ?case by simp
next
  case (Cons x xs)
  then have "\<not> readyState (snd (exec y x a))"
    by (cases x) (simp_all add: shutdown_def reloadDynamicRouter_ready)
  with Cons show ?case by simp
qed

text \<open>
  C3, as the code has it. A new instance is not ready. \<open>init\<close> makes it ready when it
  returns normally, and leaves the readiness as it was when it throws. \<open>shutdown\<close> makes
  it not ready, and it stays so under every later sequence of operations that does not
  call \<open>init\<close> again.
\<close>
theorem readiness_lifecycle:
  "(constructor cfg = Inr a0 \<longrightarrow> \<not> readyState a0)
   \<and> (fst (init y a) = None \<longrightarrow> readyState (snd (init y a)))
   \<and> (fst (init y a) \<noteq> None \<longrightarrow> readyState (snd (init y a)) = readyState a)
   \<and> \<not> readyState (shutdown a)
   \<and> (Init \<notin> set ops \<longrightarrow> \<not> readyState (run y ops (shutdown a)))"
proof -
  have 1: "constructor cfg = Inr a0 \<longrightarrow> \<not> readyState a0"
    by (auto simp: constructor_def Let_def split: if_splits)
  obtain r a' where i: "init y a = (r, a')" by (cases "init y a")
  have 2: "fst (init y a) = None \<longrightarrow> readyState (snd (init y a))"
    using init_frame(2) [OF i] i by simp
  have 3: "fst (init y a) \<noteq> None \<longrightarrow> readyState (snd (init y a)) = readyState a"
    using init_frame(3) [OF i] i by simp
  have 4: "\<not> readyState (shutdown a)" by (simp add: shutdown_def)
  have 5: "Init \<notin> set ops \<longrightarrow> \<not> readyState (run y ops (shutdown a))"
    using run_no_init_ready [of ops "shutdown a" y] 4 by blast
  from 1 2 3 4 5 show ?thesis by blast
qed

lemma example_constructor: "constructor example_config = Inr example_app"
  by (simp add: constructor_def example_config_def example_app_def)

lemma example_init_ok: "fst (init reference_yaml example_app) = None"
  by code_simp

lemma example_init_fails:
  "fst (init reference_yaml
          (example_app\<lparr>app_config := example_config\<lparr>openapiBaseSchema := Some ''missing.yml''\<rparr>\<rparr>))
   = Some (Error ''ENOENT: no such file or directory'')"
  by code_simp

text \<open>
  C3 at the example instance: an \<open>init\<close> that succeeds, one that throws because the schema
  document is missing, and a reload and a second shutdown after a shutdown.
\<close>
theorem readiness_lifecycle_witness:
  "constructor example_config = Inr example_app \<and> \<not> readyState example_app
   \<and> fst (init reference_yaml example_app) = None
   \<and> readyState (snd (init reference_yaml example_app))
   \<and> fst (init reference_yaml
        (example_app\<lparr>app_config := example_config\<lparr>openapiBaseSchema := Some ''missing.yml''\<rparr>\<rparr>))
       \<noteq> None
   \<and> \<not> readyState (snd (init reference_yaml
        (example_app\<lparr>app_config := example_config\<lparr>openapiBaseSchema := Some ''missing.yml''\<rparr>\<rparr>)))
   \<and> Init \<notin> set [ReloadDynamicRouter None, Shutdown]
   \<and> \<not> readyState (run reference_yaml [ReloadDynamicRouter None, Shutdown]
          (shutdown (snd (init reference_yaml example_app))))"
proof -
  let ?b = "example_app\<lparr>app_config := example_config\<lparr>openapiBaseSchema := Some ''missing.yml''\<rparr>\<rparr>"
  let ?ops = "[ReloadDynamicRouter None, Shutdown]"
  have r: "\<not> readyState example_app" "\<not> readyState ?b" by (simp_all add: example_app_def)
  have f: "fst (init reference_yaml ?b) \<noteq> None" using example_init_fails by simp
  have n: "Init \<notin> set ?ops" by simp
  show ?thesis
    using readiness_lifecycle [of example_config example_app reference_yaml example_app ?ops]
      readiness_lifecycle [of example_config example_app reference_yaml ?b ?ops]
      readiness_lifecycle [of example_config example_app reference_yaml
        "snd (init reference_yaml example_app)" ?ops]
      example_constructor example_init_ok r f n
    by blast
qed

text \<open>
  C3 as the claim states it, that no later operation makes the instance ready again after
  \<open>shutdown\<close>, fails: a second \<open>init\<close> does.
\<close>
theorem ready_again_after_shutdown_counterexample:
  "\<not> readyState (run reference_yaml [Init, Shutdown] example_app)
   \<and> readyState (run reference_yaml [Init, Shutdown, Init] example_app)"
  by code_simp







subsection \<open>The terminal error handler\<close>

lemma wire_Cons_Some [simp]: "wire ((k, Some v) # kvs) = JObj ((k, v) # (case wire kvs of JObj xs \<Rightarrow> xs))"
  by (simp add: wire_def List.map_filter_simps)

lemma wire_Cons_None [simp]: "wire ((k, None) # kvs) = wire kvs"
  by (simp add: wire_def List.map_filter_simps)

lemma wire_Nil [simp]: "wire [] = JObj []"
  by (simp add: wire_def List.map_filter_simps)

text \<open>
  C5. When no response has been started, the error handler answers with the status of the
  error, and with the message of the error if it is public, the fixed message if it is
  not; it passes nothing on.
\<close>
theorem rendered_message_and_status:
  assumes "\<not> headersSent res"
  shows "statusCode (fst (initErrorHandling_mw cfg error res)) = err_status error
         \<and> body_field (fst (initErrorHandling_mw cfg error res)) ''message''
             = Some (JStr (if isPublic error then err_message error
                           else ''An unexpected error has occurred''))
         \<and> snd (initErrorHandling_mw cfg error res) = None"
  using assms
  by (cases "err_class error")
     (simp_all add: initErrorHandling_mw_def status_json_def body_field_def Let_def)

text \<open>C5 at the error of the tests, status 405, once public and once not.\<close>
theorem rendered_message_and_status_witness:
  "body_field (fst (initErrorHandling_mw example_config
       (Canonical ApiErrorClass ''This error was produced by service.test.ts'' ''error.some-error''
          405 True None None) example_response)) ''message''
     = Some (JStr ''This error was produced by service.test.ts'')
   \<and> statusCode (fst (initErrorHandling_mw example_config
       (Canonical ApiErrorClass ''This error was produced by service.test.ts'' ''error.some-error''
          405 False None None) example_response)) = 405
   \<and> body_field (fst (initErrorHandling_mw example_config
       (Canonical ApiErrorClass ''This error was produced by service.test.ts'' ''error.some-error''
          405 False None None) example_response)) ''message''
     = Some (JStr ''An unexpected error has occurred'')"
proof -
  have h: "\<not> headersSent example_response" by (simp add: example_response_def)
  show ?thesis
    using rendered_message_and_status [OF h, of example_config
        "Canonical ApiErrorClass ''This error was produced by service.test.ts'' ''error.some-error''
           405 True None None"]
      rendered_message_and_status [OF h, of example_config
        "Canonical ApiErrorClass ''This error was produced by service.test.ts'' ''error.some-error''
           405 False None None"]
    by simp
qed

text \<open>
  C8. When a response has already been started, the error handler leaves the response as
  it is and passes the error to \<^verbatim>\<open>next\<close>.
\<close>
theorem headers_sent_forwards:
  assumes "headersSent res"
  shows "initErrorHandling_mw cfg error res = (res, Some (ApiError error))"
  using assms by (simp add: initErrorHandling_mw_def)

text \<open>C8 at a response that has sent status 200 and the body \<^verbatim>\<open>{"message":"ok"}\<close>.\<close>
theorem headers_sent_forwards_witness:
  "initErrorHandling_mw example_config
     (Canonical ApiErrorClass ''This error was produced by service.test.ts'' ''error.unexpected''
        500 False None None)
     \<lparr>headersSent = True, statusCode = 200, sent = Some (JObj [(''message'', JStr ''ok'')])\<rparr>
   = (\<lparr>headersSent = True, statusCode = 200, sent = Some (JObj [(''message'', JStr ''ok'')])\<rparr>,
      Some (ApiError (Canonical ApiErrorClass ''This error was produced by service.test.ts''
        ''error.unexpected'' 500 False None None)))"
proof -
  have h: "headersSent \<lparr>headersSent = True, statusCode = 200,
             sent = Some (JObj [(''message'', JStr ''ok'')])\<rparr>" by simp
  show ?thesis using headers_sent_forwards [OF h] .
qed

text \<open>
  C9, as the code has it. The body the error handler sends has a member \<^verbatim>\<open>details\<close>
  exactly when the error is a \<^verbatim>\<open>DetailedError\<close>, and then it is the list of its details,
  empty or not; it has a member \<^verbatim>\<open>stack\<close> exactly when the environment is development
  and the error has a stack trace.
\<close>
theorem details_and_stack_fields:
  assumes "\<not> headersSent res"
  shows "(body_field (fst (initErrorHandling_mw cfg error res)) ''details'' \<noteq> None
            \<longleftrightarrow> (\<exists>ds. err_class error = DetailedErrorClass ds))
         \<and> (\<forall>ds. err_class error = DetailedErrorClass ds \<longrightarrow>
               body_field (fst (initErrorHandling_mw cfg error res)) ''details''
                 = Some (JArr (map detail_json ds)))
         \<and> (body_field (fst (initErrorHandling_mw cfg error res)) ''stack'' \<noteq> None
            \<longleftrightarrow> env cfg = GLOBAL_ENV_DEV \<and> err_stack error \<noteq> None)"
  using assms
  by (cases "err_class error"; cases "err_stack error")
     (simp_all add: initErrorHandling_mw_def status_json_def body_field_def Let_def)

text \<open>
  C9 as the claim states it, that \<^verbatim>\<open>details\<close> is sent only when the list is not empty,
  fails: a \<^verbatim>\<open>DetailedError\<close> with no details is sent with the member \<^verbatim>\<open>details\<close>, an
  empty list.
\<close>
theorem empty_details_rendered_counterexample:
  "body_field (fst (initErrorHandling_mw example_config
       (Canonical (DetailedErrorClass []) ''This error was produced by service.test.ts'' ''10''
          500 True None None) example_response)) ''details''
   = Some (JArr [])"
  by code_simp

text \<open>C9 at a detailed error with one detail, outside development.\<close>
theorem details_and_stack_fields_witness:
  "body_field (fst (initErrorHandling_mw example_config
       (Canonical (DetailedErrorClass [\<lparr>target = ''/test'', detail_message = ''Bad Request'',
            detail_code = None\<rparr>]) ''Bad Request'' ''error.request.invalid''
          400 True (Some ''trace'') None) example_response)) ''details''
     = Some (JArr [JObj [(''target'', JStr ''/test''), (''message'', JStr ''Bad Request'')]])
   \<and> body_field (fst (initErrorHandling_mw example_config
       (Canonical (DetailedErrorClass [\<lparr>target = ''/test'', detail_message = ''Bad Request'',
            detail_code = None\<rparr>]) ''Bad Request'' ''error.request.invalid''
          400 True (Some ''trace'') None) example_response)) ''stack'' = None"
proof -
  have h: "\<not> headersSent example_response" by (simp add: example_response_def)
  have e: "env example_config \<noteq> GLOBAL_ENV_DEV"
    by (simp add: example_config_def GLOBAL_ENV_DEV_def)
  show ?thesis
    using details_and_stack_fields [OF h, of example_config
        "Canonical (DetailedErrorClass [\<lparr>target = ''/test'', detail_message = ''Bad Request'',
            detail_code = None\<rparr>]) ''Bad Request'' ''error.request.invalid''
          400 True (Some ''trace'') None"] e
    by (simp add: detail_json_def)
qed

subsection \<open>Construction\<close>

text \<open>
  C6. Unless the check has been disabled with \<^verbatim>\<open>shouldCheckOpenApiBaseSchema: false\<close>, the
  constructor throws the configuration error when both schema sources are absent, and
  more generally when neither is truthy. With either source truthy it returns an
  instance, which holds the configuration and is not ready.
\<close>
theorem constructor_schema_check:
  "(shouldCheckOpenApiBaseSchema cfg \<noteq> Some False
      \<and> openapiBaseSchema cfg = None \<and> openapiSpec cfg = None
      \<longrightarrow> constructor cfg = Inl ConfigurationError)
   \<and> (shouldCheckOpenApiBaseSchema cfg \<noteq> Some False
      \<and> \<not> truthy_str (openapiBaseSchema cfg) \<and> \<not> truthy_opt (openapiSpec cfg)
      \<longrightarrow> constructor cfg = Inl ConfigurationError)
   \<and> (truthy_str (openapiBaseSchema cfg) \<or> truthy_opt (openapiSpec cfg)
      \<longrightarrow> (\<exists>a. constructor cfg = Inr a \<and> app_config a = cfg \<and> \<not> readyState a))"
  by (auto simp: constructor_def Let_def)

text \<open>C6 at the example configuration: without a schema source, with its path, with a schema object.\<close>
theorem constructor_schema_check_witness:
  "constructor (example_config\<lparr>openapiBaseSchema := None\<rparr>) = Inl ConfigurationError
   \<and> (\<exists>a. constructor example_config = Inr a)
   \<and> (\<exists>a. constructor (example_config\<lparr>openapiBaseSchema := None,
              openapiSpec := Some (JObj [(''openapi'', JStr ''3.0.0'')])\<rparr>) = Inr a)"
proof -
  have 1: "constructor (example_config\<lparr>openapiBaseSchema := None\<rparr>) = Inl ConfigurationError"
    using constructor_schema_check [of "example_config\<lparr>openapiBaseSchema := None\<rparr>"]
    by (simp add: example_config_def)
  have "truthy_str (openapiBaseSchema example_config)" by (simp add: example_config_def)
  with constructor_schema_check [of example_config]
  have 2: "\<exists>a. constructor example_config = Inr a" by blast
  have "truthy_opt (openapiSpec (example_config\<lparr>openapiBaseSchema := None,
              openapiSpec := Some (JObj [(''openapi'', JStr ''3.0.0'')])\<rparr>))" by simp
  with constructor_schema_check [of "example_config\<lparr>openapiBaseSchema := None,
              openapiSpec := Some (JObj [(''openapi'', JStr ''3.0.0'')])\<rparr>"]
  have 3: "\<exists>a. constructor (example_config\<lparr>openapiBaseSchema := None,
              openapiSpec := Some (JObj [(''openapi'', JStr ''3.0.0'')])\<rparr>) = Inr a" by blast
  from 1 2 3 show ?thesis by blast
qed

subsection \<open>Error translation\<close>

text \<open>
  C7. The translation chain turns a bad-request error of the schema validator into a
  canonical error of status 400 and code \<^verbatim>\<open>error.request.invalid\<close>, whose details are the
  issues of the validator, one for one and in their order, each with the path as target,
  the message and the code of its issue.
\<close>
theorem bad_request_translation:
  "\<exists>c. snd (translation_chain lib cfg trace (HttpError BadRequest name m errors)) = ApiError c
       \<and> err_status c = 400 \<and> err_code c = ''error.request.invalid''
       \<and> err_class c = DetailedErrorClass (map detail_of errors)
       \<and> length (map detail_of errors) = length errors
       \<and> map target (map detail_of errors) = map item_path errors
       \<and> map detail_message (map detail_of errors) = map item_message errors
       \<and> map detail_code (map detail_of errors) = map item_code errors"
  by (simp add: translation_chain_def initErrorTranslation_mw_def new_DetailedError_def
      detail_of_def comp_def)

text \<open>C7 at the bad-request error of the tests, on the path \<^verbatim>\<open>/test\<close>.\<close>
theorem bad_request_translation_witness:
  "snd (translation_chain reference_errlib example_config ''trace''
          (HttpError BadRequest ''Bad Request'' ''Bad Request''
             [\<lparr>item_path = ''/test'', item_message = ''Bad Request'', item_code = None\<rparr>]))
   = ApiError (Canonical
       (DetailedErrorClass
          [\<lparr>target = ''/test'', detail_message = ''Bad Request'', detail_code = None\<rparr>])
       ''Bad Request'' ''error.request.invalid'' 400 True (Some ''trace'')
       (Some (HttpError BadRequest ''Bad Request'' ''Bad Request''
          [\<lparr>item_path = ''/test'', item_message = ''Bad Request'', item_code = None\<rparr>])))"
  using bad_request_translation [of reference_errlib example_config "''trace''" "''Bad Request''"
      "''Bad Request''" "[\<lparr>item_path = ''/test'', item_message = ''Bad Request'', item_code = None\<rparr>]"]
  by (simp add: translation_chain_def initErrorTranslation_mw_def new_DetailedError_def
      detail_of_def)

end
